theory Spec2Isabelle
  imports Main "HOL-Library.Word" "HOL-Library.Multiset"
begin

unbundle bit_operations_syntax

section \<open>The URL shortener of \<^verbatim>\<open>src/server.js\<close>\<close>

text \<open>
  The service has four routes: \<^verbatim>\<open>POST /api/shorten\<close>, \<^verbatim>\<open>GET /api/stats/:shortCode\<close>,
  \<^verbatim>\<open>GET /api/urls\<close> and \<^verbatim>\<open>GET /:shortCode\<close>. Each handler is embedded as a function from
  the request, the table \<^verbatim>\<open>urls\<close> and the outcome of every call it makes to the outside
  (the database, the auth service, the random source) to the list of effects it performs,
  in program order, and the table afterwards. The middleware in front of the handlers
  (CORS, the JSON body parser, the static files and the rate limiter of lines 55-76) is not
  part of the model: the theorems say what a handler does once it runs.
\<close>

subsection \<open>The table \<^verbatim>\<open>urls\<close>\<close>

text \<open>
  The columns are the ones the handlers read and write: \<^verbatim>\<open>original_url\<close>,
  \<^verbatim>\<open>short_code\<close> and \<^verbatim>\<open>user_id\<close> (the insert of line 107), \<^verbatim>\<open>clicks\<close> (lines 210 and 226)
  and \<^verbatim>\<open>created_at\<close> (line 177). The table is a list of rows in insertion order.
\<close>

record url_row =
  original_url :: string
  short_code :: string
  user_id :: "string option"
  clicks :: int
  created_at :: int

type_synonym db = "url_row list"

datatype store_error = UniqueViolation | NotFound | MultipleRows | TransientFailure

text \<open>
  The database client (the package \<^verbatim>\<open>@supabase/supabase-js\<close>) and the schema of the table are
  not under \<^verbatim>\<open>src/\<close>. Every query of the client resolves to a pair \<^verbatim>\<open>{ data, error }\<close>: a
  failure is the value \<^verbatim>\<open>error\<close>, never a rejected promise, and the handlers read it that
  way (lines 105, 136, 173, 208, 221). In the model a query returns \<open>Inl\<close> for \<^verbatim>\<open>error\<close> and
  \<open>Inr\<close> for \<^verbatim>\<open>data\<close>. The flag \<open>fails\<close> of each operation is the environment's choice that
  this one call ends in an error (network failure, timeout, a store that is down or refuses
  the call); a call that fails leaves the table as it was. Row-level security policies are
  not under \<^verbatim>\<open>src/\<close> either: the model's store applies none, and the client of
  \<^verbatim>\<open>getSupabase\<close> (lines 42-51) reads and writes the same table as the global one.
  Building a client is no call to the store.
\<close>

text \<open>
  Modelled from the spec: the table's schema and the store's \<^verbatim>\<open>insert\<close> are missing from
  \<^verbatim>\<open>src/\<close>. The spec (4.2, 4.5, 3): the insert is atomic, fails with \<open>UniqueViolation\<close> if
  \<^verbatim>\<open>shortCode\<close> already exists (it never overwrites), and the new record has
  \<^verbatim>\<open>clicks = 0\<close> and \<^verbatim>\<open>createdAt = now\<close>.
\<close>

definition insert_row ::
  "bool \<Rightarrow> int \<Rightarrow> db \<Rightarrow> string \<Rightarrow> string \<Rightarrow> string option \<Rightarrow> (store_error + url_row) \<times> db" where
  "insert_row fails now tbl ourl code uid =
     (if fails then (Inl TransientFailure, tbl)
      else if code \<in> set (map short_code tbl) then (Inl UniqueViolation, tbl)
      else (let r = \<lparr>original_url = ourl, short_code = code, user_id = uid,
                      clicks = 0, created_at = now\<rparr>
            in (Inr r, tbl @ [r])))"

text \<open>
  \<^verbatim>\<open>.select(...).eq('short_code', shortCode).single()\<close> (lines 136-140 and 208-212): the rows
  whose code is \<open>shortCode\<close>; \<^verbatim>\<open>single()\<close> reports an error unless there is exactly one.
\<close>

definition select_single :: "bool \<Rightarrow> db \<Rightarrow> string \<Rightarrow> store_error + url_row" where
  "select_single fails tbl code =
     (if fails then Inl TransientFailure
      else case filter (\<lambda>r. short_code r = code) tbl of
             [] \<Rightarrow> Inl NotFound
           | [r] \<Rightarrow> Inr r
           | _ \<Rightarrow> Inl MultipleRows)"

text \<open>
  \<^verbatim>\<open>.select('*').eq('user_id', user.id).order('created_at', { ascending: false }).limit(50)\<close>
  (lines 173-178). Rows with equal \<^verbatim>\<open>created_at\<close> come in the order the stable sort leaves
  them; the database promises no order among them.
\<close>

definition select_by_owner :: "bool \<Rightarrow> db \<Rightarrow> string \<Rightarrow> nat \<Rightarrow> store_error + url_row list" where
  "select_by_owner fails tbl uid n =
     (if fails then Inl TransientFailure
      else Inr (take n (sort_key (\<lambda>r. - created_at r)
                          (filter (\<lambda>r. user_id r = Some uid) tbl))))"

text \<open>
  Modelled from the spec: the SQL function \<^verbatim>\<open>increment_clicks\<close> that line 220 calls through
  \<^verbatim>\<open>supabase.rpc\<close> is missing from \<^verbatim>\<open>src/\<close>. The spec (4.2): \<^verbatim>\<open>incrementClicks(code)\<close>
  atomically increments \<^verbatim>\<open>clicks\<close> by 1 for the given code, or fails.
\<close>

definition increment_clicks :: "bool \<Rightarrow> db \<Rightarrow> string \<Rightarrow> (store_error + unit) \<times> db" where
  "increment_clicks fails tbl code =
     (if fails then (Inl TransientFailure, tbl)
      else (Inr (), map (\<lambda>r. if short_code r = code then r\<lparr>clicks := clicks r + 1\<rparr> else r) tbl))"

text \<open>\<^verbatim>\<open>.update({ clicks: n }).eq('short_code', shortCode)\<close> (lines 224-227).\<close>

definition update_clicks :: "bool \<Rightarrow> db \<Rightarrow> string \<Rightarrow> int \<Rightarrow> (store_error + unit) \<times> db" where
  "update_clicks fails tbl code n =
     (if fails then (Inl TransientFailure, tbl)
      else (Inr (), map (\<lambda>r. if short_code r = code then r\<lparr>clicks := n\<rparr> else r) tbl))"

subsection \<open>Configuration, requests, responses and effects\<close>

record env =
  VERCEL_URL :: "string option"
  PORT :: "string option"

text \<open>
  Line 11, \<^verbatim>\<open>process.env.PORT || 3000\<close>, and lines 94-96 (also 144-146 and 182-184): an unset
  and an empty variable are both falsy.
\<close>

definition port :: "env \<Rightarrow> string" where
  "port e = (case PORT e of None \<Rightarrow> ''3000'' | Some p \<Rightarrow> if p = [] then ''3000'' else p)"

definition baseUrl :: "env \<Rightarrow> string" where
  "baseUrl e =
     (case VERCEL_URL e of
        None \<Rightarrow> ''http://localhost:'' @ port e
      | Some v \<Rightarrow> if v = [] then ''http://localhost:'' @ port e else ''https://'' @ v)"

text \<open>What \<^verbatim>\<open>sb.auth.getUser()\<close> resolves to: \<^verbatim>\<open>{ data: { user }, error }\<close>, the user by its id.\<close>

record auth_result =
  user :: "string option"
  authError :: bool

datatype json =
    ErrorBody string
  | ShortenBody string string string string
  | RowBody url_row string
  | RowsBody "(url_row \<times> string) list"

text \<open>
  \<open>ShortenBody shortCode shortUrl originalUrl message\<close> is the object of lines 117-122,
  \<open>RowBody data shortUrl\<close> the one of lines 148-151, \<open>RowsBody\<close> the array of lines 186-191.
  \<^verbatim>\<open>res.json\<close> without \<^verbatim>\<open>res.status\<close> answers 200, \<^verbatim>\<open>res.redirect\<close> answers 302.
\<close>

datatype response = Json nat json | Redirect string | End nat

fun status :: "response \<Rightarrow> nat" where
  "status (Json n _) = n"
| "status (Redirect _) = 302"
| "status (End n) = n"

datatype store_call =
    Insert string string "string option"
  | SelectByCode string
  | SelectByOwner string nat
  | RpcIncrementClicks string
  | UpdateClicks string int

datatype event =
    Generated string
  | AuthGetUser
  | Store store_call
  | Respond response

fun is_accounting :: "event \<Rightarrow> bool" where
  "is_accounting (Store (RpcIncrementClicks _)) = True"
| "is_accounting (Store (UpdateClicks _ _)) = True"
| "is_accounting _ = False"

definition responses :: "event list \<Rightarrow> response list" where
  "responses evs = concat (map (\<lambda>e. case e of Respond r \<Rightarrow> [r] | _ \<Rightarrow> []) evs)"

subsection \<open>The code generator\<close>

text \<open>
  Modelled from the spec: \<^verbatim>\<open>nanoid\<close> (line 4) is a package, not under \<^verbatim>\<open>src/\<close>. The spec
  (4.1): \<^verbatim>\<open>generate()\<close> produces a string of fixed length drawn from a URL-safe alphabet
  (uppercase and lowercase letters, digits, \<^verbatim>\<open>-\<close> and \<^verbatim>\<open>_\<close>) from a random source. The
  random source is the parameter \<open>pool\<close>, one byte per position. The table of 64 letters
  and the selection of a letter by the low six bits of a byte are the package's.
\<close>

definition urlAlphabet :: string where
  "urlAlphabet = ''useandom-26T198340PX75pxJACKVERYMINDBUSHWOLF_GQZbfghjklqvwyzrict''"

definition nanoid :: "nat \<Rightarrow> (nat \<Rightarrow> 8 word) \<Rightarrow> string" where
  "nanoid n pool = map (\<lambda>i. urlAlphabet ! unat (pool i AND 63)) [0..<n]"

definition url_safe :: "char \<Rightarrow> bool" where
  "url_safe c \<longleftrightarrow>
     c \<in> set ''ABCDEFGHIJKLMNOPQRSTUVWXYZabcdefghijklmnopqrstuvwxyz0123456789-_''"

subsection \<open>\<^verbatim>\<open>POST /api/shorten\<close> (lines 84-128)\<close>

record shorten_request =
  authorization :: "string option"
  originalUrl :: string

text \<open>
  The request is its \<^verbatim>\<open>Authorization\<close> header and the \<^verbatim>\<open>originalUrl\<close> of its body, a string.
  \<^verbatim>\<open>validUrl.isUri\<close> (the package \<^verbatim>\<open>valid-url\<close>, not under \<^verbatim>\<open>src/\<close>) is the parameter
  \<open>isUri\<close>. \<open>shorten_try\<close> is the \<^verbatim>\<open>try\<close> block: it returns the effects so far, the table,
  and either the error thrown at line 115 or the body of line 117. A header is truthy when
  it is present and not empty (line 100).
\<close>

definition truthy :: "string option \<Rightarrow> bool" where
  "truthy h = (case h of None \<Rightarrow> False | Some s \<Rightarrow> s \<noteq> [])"

definition shorten_try ::
  "env \<Rightarrow> (nat \<Rightarrow> 8 word) \<Rightarrow> int \<Rightarrow> db \<Rightarrow> shorten_request \<Rightarrow> auth_result \<Rightarrow> bool
     \<Rightarrow> event list \<times> db \<times> (store_error + json)" where
  "shorten_try e pool now tbl req auth f_ins =
     (let shortCode = nanoid 6 pool;
          userId = (if truthy (authorization req) then user auth else None);
          evs = [Generated shortCode] @ (if truthy (authorization req) then [AuthGetUser] else [])
                @ [Store (Insert (originalUrl req) shortCode userId)]
      in case insert_row f_ins now tbl (originalUrl req) shortCode userId of
           (Inl err, tbl') \<Rightarrow> (evs, tbl', Inl err)
         | (Inr data, tbl') \<Rightarrow>
             (evs, tbl', Inr (ShortenBody shortCode (baseUrl e @ ''/'' @ shortCode)
                                (originalUrl req) ''URL shortened successfully'')))"

definition shorten_handler ::
  "env \<Rightarrow> (string \<Rightarrow> bool) \<Rightarrow> (nat \<Rightarrow> 8 word) \<Rightarrow> int \<Rightarrow> db \<Rightarrow> shorten_request \<Rightarrow> auth_result
     \<Rightarrow> bool \<Rightarrow> event list \<times> db" where
  "shorten_handler e isUri pool now tbl req auth f_ins =
     (if \<not> isUri (originalUrl req)
      then ([Respond (Json 400 (ErrorBody ''Invalid URL format''))], tbl)
      else case shorten_try e pool now tbl req auth f_ins of
             (evs, tbl', Inr body) \<Rightarrow> (evs @ [Respond (Json 200 body)], tbl')
           | (evs, tbl', Inl err) \<Rightarrow>
               (evs @ [Respond (Json 500 (ErrorBody
                  ''Failed to shorten URL. Database connection may be missing.''))], tbl'))"

subsection \<open>\<^verbatim>\<open>GET /api/stats/:shortCode\<close> (lines 131-157)\<close>

text \<open>
  Line 142 answers 404 on \<^verbatim>\<open>error || !data\<close>. Nothing in the \<^verbatim>\<open>try\<close> block throws, so the
  \<^verbatim>\<open>catch\<close> of line 153 has no path to it.
\<close>

definition stats_handler :: "env \<Rightarrow> db \<Rightarrow> string \<Rightarrow> bool \<Rightarrow> event list \<times> db" where
  "stats_handler e tbl shortCode f_sel =
     (case select_single f_sel tbl shortCode of
        Inl err \<Rightarrow>
          ([Store (SelectByCode shortCode), Respond (Json 404 (ErrorBody ''URL not found''))], tbl)
      | Inr data \<Rightarrow>
          ([Store (SelectByCode shortCode),
            Respond (Json 200 (RowBody data (baseUrl e @ ''/'' @ short_code data)))], tbl))"

subsection \<open>\<^verbatim>\<open>GET /api/urls\<close> (lines 160-197)\<close>

definition urls_handler :: "env \<Rightarrow> db \<Rightarrow> auth_result \<Rightarrow> bool \<Rightarrow> event list \<times> db" where
  "urls_handler e tbl auth f_sel =
     (case user auth of
        None \<Rightarrow> ([AuthGetUser, Respond (Json 200 (RowsBody []))], tbl)
      | Some uid \<Rightarrow>
          if authError auth then ([AuthGetUser, Respond (Json 200 (RowsBody []))], tbl)
          else case select_by_owner f_sel tbl uid 50 of
                 Inl err \<Rightarrow>
                   ([AuthGetUser, Store (SelectByOwner uid 50),
                     Respond (Json 500 (ErrorBody ''Server error''))], tbl)
               | Inr data \<Rightarrow>
                   ([AuthGetUser, Store (SelectByOwner uid 50),
                     Respond (Json 200 (RowsBody
                        (map (\<lambda>u. (u, baseUrl e @ ''/'' @ short_code u)) data)))], tbl))"

subsection \<open>\<^verbatim>\<open>GET /:shortCode\<close> (lines 200-236)\<close>

text \<open>
  The handler suspends once, at the \<^verbatim>\<open>await\<close> of line 208. After \<^verbatim>\<open>res.redirect\<close> (line
  217) it starts the call of line 220 and returns; the callback of line 221 runs when that
  call has resolved, and the update of line 224 after it. A request in flight is therefore
  a \<open>task\<close>: the store call it is waiting for, with the values of the handler's variables.
  \<open>Increment code n\<close> and \<open>Fallback code n\<close> carry \<^verbatim>\<open>shortCode\<close> and \<^verbatim>\<open>data.clicks\<close>.
\<close>

datatype task = Lookup string | Increment string int | Fallback string int | Finished

text \<open>The start of the handler, up to the first store call (lines 201-204).\<close>

definition spawn :: "string \<Rightarrow> event list \<times> task" where
  "spawn shortCode =
     (if shortCode = ''favicon.ico'' then ([Respond (End 404)], Finished)
      else ([], Lookup shortCode))"

text \<open>
  One store call of a task and the code that runs when it resolves, up to the next store
  call. Nothing in the \<^verbatim>\<open>try\<close> block throws, so the \<^verbatim>\<open>catch\<close> of line 232 has no path to it.
\<close>

fun task_step :: "bool \<Rightarrow> db \<Rightarrow> task \<Rightarrow> event list \<times> db \<times> task" where
  "task_step fails tbl (Lookup code) =
     (case select_single fails tbl code of
        Inl err \<Rightarrow>
          ([Store (SelectByCode code), Respond (Redirect ''/?error=not_found'')], tbl, Finished)
      | Inr data \<Rightarrow>
          ([Store (SelectByCode code), Respond (Redirect (original_url data))], tbl,
           Increment code (clicks data)))"
| "task_step fails tbl (Increment code known) =
     (case increment_clicks fails tbl code of
        (Inl err, tbl') \<Rightarrow> ([Store (RpcIncrementClicks code)], tbl', Fallback code known)
      | (Inr _, tbl') \<Rightarrow> ([Store (RpcIncrementClicks code)], tbl', Finished))"
| "task_step fails tbl (Fallback code known) =
     (case update_clicks fails tbl code (known + 1) of
        (_, tbl') \<Rightarrow> ([Store (UpdateClicks code (known + 1))], tbl', Finished))"
| "task_step fails tbl Finished = ([], tbl, Finished)"

text \<open>
  The handler run alone, from the request to the end of its last callback. \<open>f_sel\<close>,
  \<open>f_rpc\<close> and \<open>f_upd\<close> say whether the select, the \<^verbatim>\<open>rpc\<close> and the update fail.
\<close>

definition redirect_handler :: "db \<Rightarrow> string \<Rightarrow> bool \<Rightarrow> bool \<Rightarrow> bool \<Rightarrow> event list \<times> db" where
  "redirect_handler tbl shortCode f_sel f_rpc f_upd =
     (if shortCode = ''favicon.ico'' then ([Respond (End 404)], tbl)
      else case select_single f_sel tbl shortCode of
             Inl err \<Rightarrow>
               ([Store (SelectByCode shortCode), Respond (Redirect ''/?error=not_found'')], tbl)
           | Inr data \<Rightarrow>
               (case increment_clicks f_rpc tbl shortCode of
                  (Inr _, tbl1) \<Rightarrow>
                    ([Store (SelectByCode shortCode), Respond (Redirect (original_url data)),
                      Store (RpcIncrementClicks shortCode)], tbl1)
                | (Inl err, tbl1) \<Rightarrow>
                    ([Store (SelectByCode shortCode), Respond (Redirect (original_url data)),
                      Store (RpcIncrementClicks shortCode),
                      Store (UpdateClicks shortCode (clicks data + 1))],
                     snd (update_clicks f_upd tbl1 shortCode (clicks data + 1)))))"

text \<open>
  Requests in flight at the same time: the table and one task per request. The runtime
  resumes one task at a time, in any order; \<open>(i, fails)\<close> resumes task \<open>i\<close>, whose pending
  store call fails or not.
\<close>

fun sched_step :: "db \<times> task list \<Rightarrow> nat \<times> bool \<Rightarrow> db \<times> task list" where
  "sched_step (tbl, ts) (i, fails) =
     (if i < length ts
      then (case task_step fails tbl (ts ! i) of (evs, tbl', t') \<Rightarrow> (tbl', ts[i := t']))
      else (tbl, ts))"

definition run_schedule :: "db \<times> task list \<Rightarrow> (nat \<times> bool) list \<Rightarrow> db \<times> task list" where
  "run_schedule s sch = foldl sched_step s sch"

text \<open>The values of \<^verbatim>\<open>clicks\<close> stored under a code.\<close>

definition clicks_of :: "db \<Rightarrow> string \<Rightarrow> int list" where
  "clicks_of tbl code = map clicks (filter (\<lambda>r. short_code r = code) tbl)"

text \<open>
  The handler run alone is its task resumed three times, nothing else touching the table in
  between: a task that has finished stays finished.
\<close>

definition run_alone :: "db \<Rightarrow> string \<Rightarrow> bool \<Rightarrow> bool \<Rightarrow> bool \<Rightarrow> event list \<times> db" where
  "run_alone tbl shortCode f_sel f_rpc f_upd =
     (case spawn shortCode of
        (e0, t0) \<Rightarrow>
          (case task_step f_sel tbl t0 of
             (e1, tbl1, t1) \<Rightarrow>
               (case task_step f_rpc tbl1 t1 of
                  (e2, tbl2, t2) \<Rightarrow>
                    (case task_step f_upd tbl2 t2 of
                       (e3, tbl3, t3) \<Rightarrow> (e0 @ e1 @ e2 @ e3, tbl3)))))"

subsection \<open>Requests served one after the other\<close>

text \<open>
  A request with the outcomes of the calls its handler makes. \<open>serve\<close> runs each handler to
  the end of its last callback before the next request starts.
\<close>

datatype request =
    PostShorten shorten_request auth_result "nat \<Rightarrow> 8 word" int bool
  | GetStats string bool
  | GetUrls auth_result bool
  | GetCode string bool bool bool

fun handle :: "env \<Rightarrow> (string \<Rightarrow> bool) \<Rightarrow> db \<Rightarrow> request \<Rightarrow> event list \<times> db" where
  "handle e isUri tbl (PostShorten req auth pool now f_ins) =
     shorten_handler e isUri pool now tbl req auth f_ins"
| "handle e isUri tbl (GetStats shortCode f_sel) = stats_handler e tbl shortCode f_sel"
| "handle e isUri tbl (GetUrls auth f_sel) = urls_handler e tbl auth f_sel"
| "handle e isUri tbl (GetCode shortCode f_sel f_rpc f_upd) =
     redirect_handler tbl shortCode f_sel f_rpc f_upd"

fun serve :: "env \<Rightarrow> (string \<Rightarrow> bool) \<Rightarrow> db \<Rightarrow> request list \<Rightarrow> db" where
  "serve e isUri tbl [] = tbl"
| "serve e isUri tbl (req # reqs) = serve e isUri (snd (handle e isUri tbl req)) reqs"

text \<open>
  No record's counter has decreased from \<open>tbl\<close> to \<open>tbl'\<close>: rows are never deleted or moved,
  so a record is the row at its position; it keeps its code, and its \<^verbatim>\<open>clicks\<close> in \<open>tbl'\<close>
  is at least its \<^verbatim>\<open>clicks\<close> in \<open>tbl\<close>.
\<close>

definition not_decreased :: "db \<Rightarrow> db \<Rightarrow> bool" where
  "not_decreased tbl tbl' \<longleftrightarrow>
     length tbl \<le> length tbl' \<and>
     list_all2 (\<lambda>r r'. short_code r' = short_code r \<and> clicks r \<le> clicks r')
       tbl (take (length tbl) tbl')"

text \<open>The records in a response: the rows of a listing, none in any other body.\<close>

fun rows_of :: "response \<Rightarrow> url_row list" where
  "rows_of (Json n (RowsBody xs)) = map fst xs"
| "rows_of _ = []"

text \<open>
  A fallback update that is stale: some row under its code already stores more than the
  \<^verbatim>\<open>data.clicks + 1\<close> it is about to write.
\<close>

fun stale_fallback :: "db \<Rightarrow> task \<Rightarrow> bool" where
  "stale_fallback tbl (Fallback code known) =
     (\<not> list_all (\<lambda>c. c \<le> known + 1) (clicks_of tbl code))"
| "stale_fallback tbl _ = False"

subsection \<open>Example data\<close>

text \<open>
  The inputs of the worked examples. \<open>ex_isUri\<close> stands in for \<^verbatim>\<open>validUrl.isUri\<close> there: it
  accepts the strings that start with \<^verbatim>\<open>http://\<close> or \<^verbatim>\<open>https://\<close>. \<open>ex_pool\<close> is a random
  source of zero bytes, for which the generator returns \<^verbatim>\<open>uuuuuu\<close>.
\<close>

definition ex_env :: env where
  "ex_env = \<lparr>VERCEL_URL = None, PORT = None\<rparr>"

definition ex_isUri :: "string \<Rightarrow> bool" where
  "ex_isUri s \<longleftrightarrow> take 7 s = ''http://'' \<or> take 8 s = ''https://''"

definition ex_pool :: "nat \<Rightarrow> 8 word" where
  "ex_pool i = 0"

definition ex_row :: url_row where
  "ex_row = \<lparr>original_url = ''https://example.com/very/long/path'', short_code = ''uuuuuu'',
            user_id = Some ''owner-1'', clicks = 5, created_at = 10\<rparr>"

definition ex_other :: url_row where
  "ex_other = \<lparr>original_url = ''https://example.org/'', short_code = ''abc123'',
              user_id = None, clicks = 0, created_at = 20\<rparr>"

definition ex_request :: shorten_request where
  "ex_request = \<lparr>authorization = None, originalUrl = ''https://example.com/new''\<rparr>"

definition ex_bad_request :: shorten_request where
  "ex_bad_request = \<lparr>authorization = None, originalUrl = ''not a url''\<rparr>"

definition ex_anonymous :: auth_result where
  "ex_anonymous = \<lparr>user = None, authError = True\<rparr>"

definition ex_owner :: auth_result where
  "ex_owner = \<lparr>user = Some ''owner-1'', authError = False\<rparr>"

section \<open>Facts about the store and the generator\<close>

lemma select_single_Inr:
  "select_single f tbl code = Inr d \<Longrightarrow> \<not> f \<and> filter (\<lambda>r. short_code r = code) tbl = [d]"
  by (auto simp: select_single_def split: if_splits list.splits)

lemma select_single_clicks_of:
  "select_single f tbl code = Inr d \<Longrightarrow> clicks_of tbl code = [clicks d]"
  using select_single_Inr [of f tbl code d] by (simp add: clicks_of_def)

lemma clicks_of_update:
  "clicks_of (snd (update_clicks False tbl code n)) code = map (\<lambda>c. n) (clicks_of tbl code)"
  by (induction tbl) (auto simp: clicks_of_def update_clicks_def)

text \<open>The generator never returns the name that line 204 sets apart.\<close>

lemma length_nanoid: "length (nanoid n pool) = n"
  by (simp add: nanoid_def)

lemma nanoid_not_favicon: "nanoid 6 pool \<noteq> ''favicon.ico''"
proof
  assume "nanoid 6 pool = ''favicon.ico''"
  then have "length (nanoid 6 pool) = length ''favicon.ico''" by simp
  then show False by (simp add: length_nanoid)
qed

lemma unat_low6: "unat ((w :: 8 word) AND 63) < 64"
proof -
  have "w AND 63 \<le> 63" by (rule word_and_le1)
  then have "unat (w AND 63) \<le> unat (63 :: 8 word)" by (simp add: word_le_nat_alt)
  then show ?thesis by simp
qed

lemma length_urlAlphabet: "length urlAlphabet = 64"
  by (simp add: urlAlphabet_def)

lemma urlAlphabet_safe: "list_all url_safe urlAlphabet"
  by (simp add: urlAlphabet_def url_safe_def)

lemma nanoid_safe: "list_all url_safe (nanoid n pool)"
proof -
  have "url_safe (urlAlphabet ! unat (pool i AND 63))" for i
    using urlAlphabet_safe unat_low6 [of "pool i"]
    by (simp add: list_all_length length_urlAlphabet)
  then show ?thesis by (simp add: nanoid_def list_all_iff)
qed

lemma nanoid_ex_pool: "nanoid 6 ex_pool = ''uuuuuu''"
  by (simp add: nanoid_def ex_pool_def urlAlphabet_def upt_rec)

text \<open>The handler run alone and its task resumed step by step are the same program.\<close>

lemma redirect_handler_run_alone:
  "redirect_handler tbl shortCode f_sel f_rpc f_upd = run_alone tbl shortCode f_sel f_rpc f_upd"
  by (auto simp: redirect_handler_def run_alone_def spawn_def increment_clicks_def
      update_clicks_def split: sum.splits prod.splits)

section \<open>\<^verbatim>\<open>POST /api/shorten\<close>\<close>

text \<open>
  C6. For every input string that \<^verbatim>\<open>validUrl.isUri\<close> does not accept, shorten answers 400
  with \<^verbatim>\<open>Invalid URL format\<close> and that response is its only effect: no code is generated, no
  call goes to the store or to the auth service, and the table is unchanged.
\<close>

theorem invalid_url_rejected_before_store:
  assumes "\<not> isUri (originalUrl req)"
  shows "shorten_handler e isUri pool now tbl req auth f_ins =
           ([Respond (Json 400 (ErrorBody ''Invalid URL format''))], tbl)"
  using assms by (simp add: shorten_handler_def)

text \<open>
  C6, witness: the string \<^verbatim>\<open>not a url\<close> against a table that holds a row, with a store that
  would have accepted the insert.
\<close>

theorem invalid_url_rejected_before_store_witness:
  "\<not> ex_isUri (originalUrl ex_bad_request)
   \<and> shorten_handler ex_env ex_isUri ex_pool 30 [ex_row] ex_bad_request ex_anonymous False =
       ([Respond (Json 400 (ErrorBody ''Invalid URL format''))], [ex_row])"
proof -
  have h: "\<not> ex_isUri (originalUrl ex_bad_request)"
    by (simp add: ex_isUri_def ex_bad_request_def)
  show ?thesis
    using h invalid_url_rejected_before_store
            [where isUri = ex_isUri and req = ex_bad_request, OF h]
    by simp
qed

text \<open>
  C1 (as amended). When the store insert during shorten fails, with a
  \<open>UniqueViolation\<close> or with any other error, the handler does not regenerate a code and does
  not retry: it has generated one code and attempted one insert, it answers 500, and the
  table is unchanged.
\<close>

theorem shorten_insert_failure_no_retry:
  assumes "isUri (originalUrl req)"
    and "fst (insert_row f_ins now tbl (originalUrl req) (nanoid 6 pool)
               (if truthy (authorization req) then user auth else None)) = Inl err"
  shows "shorten_handler e isUri pool now tbl req auth f_ins =
           ([Generated (nanoid 6 pool)]
            @ (if truthy (authorization req) then [AuthGetUser] else [])
            @ [Store (Insert (originalUrl req) (nanoid 6 pool)
                       (if truthy (authorization req) then user auth else None)),
               Respond (Json 500 (ErrorBody
                 ''Failed to shorten URL. Database connection may be missing.''))],
            tbl)"
  using assms
  by (auto simp: shorten_handler_def shorten_try_def insert_row_def Let_def split: if_splits)

text \<open>
  C1, witness: a valid URL, a store that is up, and a generated code \<^verbatim>\<open>uuuuuu\<close> that the
  table already holds.
\<close>

theorem shorten_insert_failure_no_retry_witness:
  "ex_isUri (originalUrl ex_request)
   \<and> fst (insert_row False 30 [ex_row] (originalUrl ex_request) (nanoid 6 ex_pool)
           (if truthy (authorization ex_request) then user ex_anonymous else None))
       = Inl UniqueViolation
   \<and> shorten_handler ex_env ex_isUri ex_pool 30 [ex_row] ex_request ex_anonymous False =
       ([Generated (nanoid 6 ex_pool)]
        @ (if truthy (authorization ex_request) then [AuthGetUser] else [])
        @ [Store (Insert (originalUrl ex_request) (nanoid 6 ex_pool)
                   (if truthy (authorization ex_request) then user ex_anonymous else None)),
           Respond (Json 500 (ErrorBody
             ''Failed to shorten URL. Database connection may be missing.''))],
        [ex_row])"
proof -
  have h1: "ex_isUri (originalUrl ex_request)"
    by (simp add: ex_isUri_def ex_request_def)
  have h2: "fst (insert_row False 30 [ex_row] (originalUrl ex_request) (nanoid 6 ex_pool)
              (if truthy (authorization ex_request) then user ex_anonymous else None))
            = Inl UniqueViolation"
    by (simp add: insert_row_def nanoid_ex_pool ex_row_def)
  show ?thesis
    using h1 h2 shorten_insert_failure_no_retry
               [where isUri = ex_isUri and req = ex_request and auth = ex_anonymous, OF h1 h2]
    by blast
qed

text \<open>
  C1, counterexample: one collision and nothing else wrong. The store is up, the URL is
  valid, the table holds a row with the code \<^verbatim>\<open>uuuuuu\<close>, and the generator returns
  \<^verbatim>\<open>uuuuuu\<close>: the insert is a \<open>UniqueViolation\<close> and the response is the 500.
\<close>

theorem single_collision_is_500:
  "ex_isUri ''https://example.com/very/long/path''
   \<and> fst (insert_row False 1
         [\<lparr>original_url = ''https://a.example/'', short_code = ''uuuuuu'', user_id = None,
           clicks = 0, created_at = 0\<rparr>]
         ''https://example.com/very/long/path'' (nanoid 6 ex_pool) None) = Inl UniqueViolation
   \<and> responses (fst (shorten_handler \<lparr>VERCEL_URL = None, PORT = None\<rparr> ex_isUri ex_pool 1
         [\<lparr>original_url = ''https://a.example/'', short_code = ''uuuuuu'', user_id = None,
           clicks = 0, created_at = 0\<rparr>]
         \<lparr>authorization = None, originalUrl = ''https://example.com/very/long/path''\<rparr>
         \<lparr>user = None, authError = False\<rparr> False))
     = [Json 500 (ErrorBody ''Failed to shorten URL. Database connection may be missing.'')]"
  by (simp add: shorten_handler_def shorten_try_def insert_row_def nanoid_ex_pool ex_isUri_def
      truthy_def responses_def Let_def)

text \<open>
  C8 (as amended). For every URL that \<^verbatim>\<open>validUrl.isUri\<close> accepts, if the store insert
  succeeds then shorten answers 200 with a \<^verbatim>\<open>shortCode\<close> of exactly 6 characters drawn only
  from letters, digits, \<^verbatim>\<open>-\<close> and \<^verbatim>\<open>_\<close>, and a \<^verbatim>\<open>shortUrl\<close> that is the base URL followed by
  \<^verbatim>\<open>/\<close> and that code; the table gains the one record, under that code and with the URL
  given. (When the insert fails the answer is the 500 of C1.)
\<close>

theorem shorten_success:
  assumes "isUri (originalUrl req)"
    and "fst (insert_row f_ins now tbl (originalUrl req) (nanoid 6 pool)
               (if truthy (authorization req) then user auth else None)) = Inr row"
  shows "responses (fst (shorten_handler e isUri pool now tbl req auth f_ins)) =
           [Json 200 (ShortenBody (nanoid 6 pool) (baseUrl e @ ''/'' @ nanoid 6 pool)
              (originalUrl req) ''URL shortened successfully'')]
         \<and> length (nanoid 6 pool) = 6 \<and> list_all url_safe (nanoid 6 pool)
         \<and> snd (shorten_handler e isUri pool now tbl req auth f_ins) = tbl @ [row]
         \<and> short_code row = nanoid 6 pool \<and> original_url row = originalUrl req"
proof -
  have "responses (fst (shorten_handler e isUri pool now tbl req auth f_ins)) =
           [Json 200 (ShortenBody (nanoid 6 pool) (baseUrl e @ ''/'' @ nanoid 6 pool)
              (originalUrl req) ''URL shortened successfully'')]
         \<and> snd (shorten_handler e isUri pool now tbl req auth f_ins) = tbl @ [row]
         \<and> short_code row = nanoid 6 pool \<and> original_url row = originalUrl req"
    using assms
    by (auto simp: shorten_handler_def shorten_try_def insert_row_def responses_def Let_def
        split: if_splits)
  then show ?thesis
    by (simp add: length_nanoid nanoid_safe)
qed

text \<open>
  C8, witness: a valid URL, a store that is up and a table without the generated code
  \<^verbatim>\<open>uuuuuu\<close>.
\<close>

theorem shorten_success_witness:
  "ex_isUri (originalUrl ex_request)
   \<and> fst (insert_row False 30 [ex_other] (originalUrl ex_request) (nanoid 6 ex_pool)
           (if truthy (authorization ex_request) then user ex_anonymous else None))
       = Inr \<lparr>original_url = ''https://example.com/new'', short_code = ''uuuuuu'',
              user_id = None, clicks = 0, created_at = 30\<rparr>
   \<and> responses (fst (shorten_handler ex_env ex_isUri ex_pool 30 [ex_other] ex_request
                       ex_anonymous False)) =
       [Json 200 (ShortenBody ''uuuuuu'' ''http://localhost:3000/uuuuuu''
          ''https://example.com/new'' ''URL shortened successfully'')]
   \<and> length (nanoid 6 ex_pool) = 6 \<and> list_all url_safe (nanoid 6 ex_pool)"
proof -
  have h1: "ex_isUri (originalUrl ex_request)"
    by (simp add: ex_isUri_def ex_request_def)
  have h2: "fst (insert_row False 30 [ex_other] (originalUrl ex_request) (nanoid 6 ex_pool)
              (if truthy (authorization ex_request) then user ex_anonymous else None))
            = Inr \<lparr>original_url = ''https://example.com/new'', short_code = ''uuuuuu'',
                   user_id = None, clicks = 0, created_at = 30\<rparr>"
    by (simp add: insert_row_def nanoid_ex_pool ex_other_def ex_request_def truthy_def Let_def)
  have b: "baseUrl ex_env = ''http://localhost:3000''"
    by (simp add: baseUrl_def port_def ex_env_def)
  show ?thesis
    using h1 h2 shorten_success
                  [where isUri = ex_isUri and req = ex_request and auth = ex_anonymous
                     and e = ex_env, OF h1 h2]
    by (simp add: nanoid_ex_pool b ex_request_def)
qed

text \<open>
  C8, counterexample: a valid URL and an empty table, with a store that is down. Shorten
  does not succeed: the response is the 500.
\<close>

theorem valid_url_store_down_is_500:
  "ex_isUri ''https://example.com/very/long/path''
   \<and> responses (fst (shorten_handler \<lparr>VERCEL_URL = None, PORT = None\<rparr> ex_isUri ex_pool 1 []
         \<lparr>authorization = None, originalUrl = ''https://example.com/very/long/path''\<rparr>
         \<lparr>user = None, authError = False\<rparr> True))
     = [Json 500 (ErrorBody ''Failed to shorten URL. Database connection may be missing.'')]"
  by (simp add: shorten_handler_def shorten_try_def insert_row_def ex_isUri_def truthy_def
      responses_def Let_def)

section \<open>Store failures on the request path\<close>

text \<open>
  When their store call fails, shorten (its insert) and the listing of an authenticated
  owner (its query) throw the error to their \<^verbatim>\<open>catch\<close> (lines 115 and 180) and answer 500.
\<close>

lemma shorten_and_listing_store_failure_500:
  "(isUri (originalUrl req) \<longrightarrow>
      responses (fst (shorten_handler e isUri pool now tbl req auth True)) =
        [Json 500 (ErrorBody ''Failed to shorten URL. Database connection may be missing.'')])
   \<and> (user auth' \<noteq> None \<and> \<not> authError auth' \<longrightarrow>
        responses (fst (urls_handler e tbl auth' True)) = [Json 500 (ErrorBody ''Server error'')])"
  by (auto simp: shorten_handler_def shorten_try_def insert_row_def urls_handler_def
      select_by_owner_def responses_def Let_def)

text \<open>
  The redirect handler answers a failed lookup with the redirect to the error page
  (line 214).
\<close>

lemma redirect_lookup_failure_not_found:
  "shortCode \<noteq> ''favicon.ico'' \<Longrightarrow>
     redirect_handler tbl shortCode True f_rpc f_upd =
       ([Store (SelectByCode shortCode), Respond (Redirect ''/?error=not_found'')], tbl)"
  by (simp add: redirect_handler_def select_single_def)

text \<open>
  The stats endpoint answers every error of its lookup, a store that is down as much as an
  unknown code, with the same 404 (line 142): the \<^verbatim>\<open>catch\<close> of line 153, which answers 500,
  is not reached.
\<close>

lemma stats_lookup_error_is_404:
  "select_single f_sel tbl shortCode = Inl err \<Longrightarrow>
     stats_handler e tbl shortCode f_sel =
       ([Store (SelectByCode shortCode), Respond (Json 404 (ErrorBody ''URL not found''))], tbl)"
  by (simp add: stats_handler_def)

text \<open>
  C7. The stats endpoint with the store down, asked for the code \<^verbatim>\<open>abc123\<close> of a stored
  record: the lookup fails with \<open>TransientFailure\<close>, and the answer is the 404
  \<^verbatim>\<open>URL not found\<close>, not a 5xx. It is the answer the endpoint gives, with the store up, for
  the code \<^verbatim>\<open>zzzzzz\<close> that no record has.
\<close>

theorem stats_store_failure_is_404:
  "select_single True
     [\<lparr>original_url = ''https://example.com/'', short_code = ''abc123'', user_id = None,
       clicks = 0, created_at = 0\<rparr>] ''abc123'' = Inl TransientFailure
   \<and> stats_handler \<lparr>VERCEL_URL = None, PORT = None\<rparr>
       [\<lparr>original_url = ''https://example.com/'', short_code = ''abc123'', user_id = None,
         clicks = 0, created_at = 0\<rparr>] ''abc123'' True =
       ([Store (SelectByCode ''abc123''), Respond (Json 404 (ErrorBody ''URL not found''))],
        [\<lparr>original_url = ''https://example.com/'', short_code = ''abc123'', user_id = None,
          clicks = 0, created_at = 0\<rparr>])
   \<and> map status (responses (fst (stats_handler \<lparr>VERCEL_URL = None, PORT = None\<rparr>
       [\<lparr>original_url = ''https://example.com/'', short_code = ''abc123'', user_id = None,
         clicks = 0, created_at = 0\<rparr>] ''abc123'' True))) = [404]
   \<and> responses (fst (stats_handler \<lparr>VERCEL_URL = None, PORT = None\<rparr>
       [\<lparr>original_url = ''https://example.com/'', short_code = ''abc123'', user_id = None,
         clicks = 0, created_at = 0\<rparr>] ''zzzzzz'' False))
       = [Json 404 (ErrorBody ''URL not found'')]"
  by (simp add: stats_handler_def select_single_def responses_def)

section \<open>\<^verbatim>\<open>GET /api/urls\<close>\<close>

text \<open>
  What the query of lines 173-178 returns when it goes through: rows of the table owned by
  \<open>uid\<close>, newest first, as many as the owner has up to the limit, and no row of the owner
  that is left out is newer than a row that is returned.
\<close>

lemma select_by_owner_newest:
  assumes "rows = take n (sort_key (\<lambda>r. - created_at r)
                     (filter (\<lambda>r. user_id r = Some uid) tbl))"
  shows "(\<forall>r \<in> set rows. user_id r = Some uid \<and> r \<in> set tbl)"
    and "sorted_wrt (\<lambda>a b. created_at b \<le> created_at a) rows"
    and "length rows = min n (length (filter (\<lambda>r. user_id r = Some uid) tbl))"
    and "mset rows \<subseteq># mset (filter (\<lambda>r. user_id r = Some uid) tbl)"
    and "\<forall>x \<in># mset (filter (\<lambda>r. user_id r = Some uid) tbl) - mset rows.
           \<forall>y \<in> set rows. created_at x \<le> created_at y"
proof -
  let ?own = "filter (\<lambda>r. user_id r = Some uid) tbl"
  let ?s = "sort_key (\<lambda>r. - created_at r) ?own"
  have rows: "rows = take n ?s"
    by (rule assms)
  have split: "?s = rows @ drop n ?s"
    unfolding rows by simp
  have ms: "mset ?own = mset rows + mset (drop n ?s)"
  proof -
    have "mset ?own = mset ?s" by (simp only: mset_sort)
    also have "\<dots> = mset (rows @ drop n ?s)" using split by simp
    finally show ?thesis by (simp only: mset_append)
  qed
  have "sorted (map (\<lambda>r. - created_at r) ?s)"
    by (rule sorted_sort_key)
  then have srt: "sorted_wrt (\<lambda>a b. created_at b \<le> created_at a) ?s"
    by (simp add: sorted_map)
  then have srt2: "sorted_wrt (\<lambda>a b. created_at b \<le> created_at a) (rows @ drop n ?s)"
    using split by simp
  show "\<forall>r \<in> set rows. user_id r = Some uid \<and> r \<in> set tbl"
    unfolding rows by (auto dest!: in_set_takeD)
  show "sorted_wrt (\<lambda>a b. created_at b \<le> created_at a) rows"
    unfolding rows using srt by (rule sorted_wrt_take)
  show "length rows = min n (length ?own)"
    unfolding rows by (simp add: min.commute)
  show "mset rows \<subseteq># mset ?own"
    unfolding ms by simp
  have "\<forall>x \<in> set (drop n ?s). \<forall>y \<in> set rows. created_at x \<le> created_at y"
    using srt2 unfolding sorted_wrt_append by blast
  moreover have "mset ?own - mset rows = mset (drop n ?s)"
    unfolding ms by simp
  ultimately show "\<forall>x \<in># mset ?own - mset rows. \<forall>y \<in> set rows. created_at x \<le> created_at y"
    by simp
qed

text \<open>
  C9. For every request to the listing endpoint: if the caller is not authenticated
  (\<^verbatim>\<open>getUser\<close> gives no user, or an error), the response is the empty list and no call goes
  to the store. If authenticated, the handler makes the one query for that owner with limit
  50; when the query fails the answer is the 500 and holds no record; when it goes through,
  the response is the 200 whose records, each with its \<^verbatim>\<open>shortUrl\<close>, are \<open>rows\<close>: only rows of
  the table owned by that owner, ordered by creation time newest first, at most 50, namely
  as many as the owner has up to 50, and none of the owner's rows left out is newer than one
  in the response.
\<close>

theorem listing_owner_newest_first_50:
  "(user auth = None \<or> authError auth \<longrightarrow>
      urls_handler e tbl auth f_sel = ([AuthGetUser, Respond (Json 200 (RowsBody []))], tbl))
   \<and> (user auth = Some uid \<and> \<not> authError auth \<and> f_sel \<longrightarrow>
      urls_handler e tbl auth f_sel =
        ([AuthGetUser, Store (SelectByOwner uid 50),
          Respond (Json 500 (ErrorBody ''Server error''))], tbl))
   \<and> (user auth = Some uid \<and> \<not> authError auth \<and> \<not> f_sel \<longrightarrow>
      (\<exists>rows. urls_handler e tbl auth f_sel =
                 ([AuthGetUser, Store (SelectByOwner uid 50),
                   Respond (Json 200 (RowsBody
                     (map (\<lambda>u. (u, baseUrl e @ ''/'' @ short_code u)) rows)))], tbl)
         \<and> rows_of (Json 200 (RowsBody
                     (map (\<lambda>u. (u, baseUrl e @ ''/'' @ short_code u)) rows))) = rows
         \<and> (\<forall>r \<in> set rows. user_id r = Some uid \<and> r \<in> set tbl)
         \<and> sorted_wrt (\<lambda>a b. created_at b \<le> created_at a) rows
         \<and> length rows \<le> 50
         \<and> length rows = min 50 (length (filter (\<lambda>r. user_id r = Some uid) tbl))
         \<and> mset rows \<subseteq># mset (filter (\<lambda>r. user_id r = Some uid) tbl)
         \<and> (\<forall>x \<in># mset (filter (\<lambda>r. user_id r = Some uid) tbl) - mset rows.
               \<forall>y \<in> set rows. created_at x \<le> created_at y)))"
proof (intro conjI impI)
  assume "user auth = None \<or> authError auth"
  then show "urls_handler e tbl auth f_sel =
               ([AuthGetUser, Respond (Json 200 (RowsBody []))], tbl)"
    by (auto simp: urls_handler_def split: option.splits)
next
  assume "user auth = Some uid \<and> \<not> authError auth \<and> f_sel"
  then show "urls_handler e tbl auth f_sel =
        ([AuthGetUser, Store (SelectByOwner uid 50),
          Respond (Json 500 (ErrorBody ''Server error''))], tbl)"
    by (simp add: urls_handler_def select_by_owner_def)
next
  assume a: "user auth = Some uid \<and> \<not> authError auth \<and> \<not> f_sel"
  define rows where "rows = take 50 (sort_key (\<lambda>r. - created_at r)
                               (filter (\<lambda>r. user_id r = Some uid) tbl))"
  note p = select_by_owner_newest [OF rows_def]
  have h: "urls_handler e tbl auth f_sel =
             ([AuthGetUser, Store (SelectByOwner uid 50),
               Respond (Json 200 (RowsBody
                 (map (\<lambda>u. (u, baseUrl e @ ''/'' @ short_code u)) rows)))], tbl)"
    using a by (simp add: urls_handler_def select_by_owner_def rows_def)
  have r: "rows_of (Json 200 (RowsBody
             (map (\<lambda>u. (u, baseUrl e @ ''/'' @ short_code u)) rows))) = rows"
    by (simp add: comp_def)
  have l: "length rows \<le> 50"
    using p(3) by simp
  show "\<exists>rows. urls_handler e tbl auth f_sel =
                 ([AuthGetUser, Store (SelectByOwner uid 50),
                   Respond (Json 200 (RowsBody
                     (map (\<lambda>u. (u, baseUrl e @ ''/'' @ short_code u)) rows)))], tbl)
         \<and> rows_of (Json 200 (RowsBody
                     (map (\<lambda>u. (u, baseUrl e @ ''/'' @ short_code u)) rows))) = rows
         \<and> (\<forall>r \<in> set rows. user_id r = Some uid \<and> r \<in> set tbl)
         \<and> sorted_wrt (\<lambda>a b. created_at b \<le> created_at a) rows
         \<and> length rows \<le> 50
         \<and> length rows = min 50 (length (filter (\<lambda>r. user_id r = Some uid) tbl))
         \<and> mset rows \<subseteq># mset (filter (\<lambda>r. user_id r = Some uid) tbl)
         \<and> (\<forall>x \<in># mset (filter (\<lambda>r. user_id r = Some uid) tbl) - mset rows.
               \<forall>y \<in> set rows. created_at x \<le> created_at y)"
    using h r l p by blast
qed

text \<open>
  C9, witness: a table with a record of the owner and a record of nobody. The anonymous
  caller gets the empty list; the owner, with the store down, the 500; the owner, with the
  store up, the one record that is theirs.
\<close>

theorem listing_owner_newest_first_50_witness:
  "(user ex_anonymous = None \<or> authError ex_anonymous)
   \<and> urls_handler ex_env [ex_other, ex_row] ex_anonymous False =
       ([AuthGetUser, Respond (Json 200 (RowsBody []))], [ex_other, ex_row])
   \<and> user ex_owner = Some ''owner-1'' \<and> \<not> authError ex_owner
   \<and> urls_handler ex_env [ex_other, ex_row] ex_owner True =
       ([AuthGetUser, Store (SelectByOwner ''owner-1'' 50),
         Respond (Json 500 (ErrorBody ''Server error''))], [ex_other, ex_row])
   \<and> (\<exists>rows. urls_handler ex_env [ex_other, ex_row] ex_owner False =
                ([AuthGetUser, Store (SelectByOwner ''owner-1'' 50),
                  Respond (Json 200 (RowsBody
                    (map (\<lambda>u. (u, baseUrl ex_env @ ''/'' @ short_code u)) rows)))],
                 [ex_other, ex_row])
        \<and> length rows
            = min 50 (length (filter (\<lambda>r. user_id r = Some ''owner-1'') [ex_other, ex_row]))
        \<and> sorted_wrt (\<lambda>a b. created_at b \<le> created_at a) rows)"
proof -
  have h1: "user ex_anonymous = None \<or> authError ex_anonymous"
    by (simp add: ex_anonymous_def)
  have h2: "user ex_owner = Some ''owner-1'' \<and> \<not> authError ex_owner \<and> True"
    by (simp add: ex_owner_def)
  have h3: "user ex_owner = Some ''owner-1'' \<and> \<not> authError ex_owner \<and> \<not> False"
    by (simp add: ex_owner_def)
  note a = listing_owner_newest_first_50
             [where auth = ex_anonymous and e = ex_env and tbl = "[ex_other, ex_row]"
                and f_sel = False, THEN conjunct1, rule_format, OF h1]
  note b = listing_owner_newest_first_50
             [where auth = ex_owner and uid = "''owner-1''" and e = ex_env
                and tbl = "[ex_other, ex_row]" and f_sel = True,
              THEN conjunct2, THEN conjunct1, rule_format, OF h2]
  note c = listing_owner_newest_first_50
             [where auth = ex_owner and uid = "''owner-1''" and e = ex_env
                and tbl = "[ex_other, ex_row]" and f_sel = False,
              THEN conjunct2, THEN conjunct2, rule_format, OF h3]
  show ?thesis
    using h1 h2 a b c by blast
qed

text \<open>What the owner of the example gets: the one record that is theirs.\<close>

lemma listing_example:
  "responses (fst (urls_handler ex_env [ex_other, ex_row] ex_owner False)) =
     [Json 200 (RowsBody [(ex_row, ''http://localhost:3000/uuuuuu'')])]"
  by (simp add: urls_handler_def select_by_owner_def responses_def ex_owner_def ex_row_def
      ex_other_def baseUrl_def port_def ex_env_def)

section \<open>\<^verbatim>\<open>GET /:shortCode\<close>\<close>

text \<open>
  C10. For the path parameter \<^verbatim>\<open>favicon.ico\<close> the redirect handler answers a bare 404 and
  does nothing else: that response is its only effect, so there is no store lookup, no
  redirect (to a target or to the error page) and no click increment, and the table is
  unchanged. No task is left pending.
\<close>

theorem favicon_bare_404:
  "redirect_handler tbl ''favicon.ico'' f_sel f_rpc f_upd = ([Respond (End 404)], tbl)
   \<and> spawn ''favicon.ico'' = ([Respond (End 404)], Finished)"
  by (simp add: redirect_handler_def spawn_def)

text \<open>
  C3. When the lookup has resolved a code to its record \<open>data\<close> and the atomic
  \<^verbatim>\<open>increment_clicks\<close> fails, the handler's store calls are the lookup, the failed increment
  and exactly one update, keyed by \<^verbatim>\<open>shortCode\<close>, that writes \<^verbatim>\<open>data.clicks + 1\<close>. When that
  update goes through, the record's \<^verbatim>\<open>clicks\<close> is \<^verbatim>\<open>data.clicks + 1\<close>. Whether the update
  fails or not, the task is finished after it: there is no second attempt.
\<close>

theorem fallback_once:
  assumes "shortCode \<noteq> ''favicon.ico''"
    and "select_single f_sel tbl shortCode = Inr data"
  shows "fst (redirect_handler tbl shortCode f_sel True f_upd) =
           [Store (SelectByCode shortCode), Respond (Redirect (original_url data)),
            Store (RpcIncrementClicks shortCode),
            Store (UpdateClicks shortCode (clicks data + 1))]
         \<and> snd (redirect_handler tbl shortCode f_sel True f_upd)
             = snd (update_clicks f_upd tbl shortCode (clicks data + 1))
         \<and> clicks_of (snd (redirect_handler tbl shortCode f_sel True False)) shortCode
             = [clicks data + 1]
         \<and> task_step True tbl (Increment shortCode (clicks data)) =
             ([Store (RpcIncrementClicks shortCode)], tbl, Fallback shortCode (clicks data))
         \<and> task_step f_upd tbl' (Fallback shortCode (clicks data)) =
             ([Store (UpdateClicks shortCode (clicks data + 1))],
              snd (update_clicks f_upd tbl' shortCode (clicks data + 1)), Finished)"
proof -
  have "clicks_of (snd (update_clicks False tbl shortCode (clicks data + 1))) shortCode
        = [clicks data + 1]"
    using select_single_clicks_of [OF assms(2)] by (simp add: clicks_of_update)
  then show ?thesis
    using assms
    by (simp add: redirect_handler_def increment_clicks_def split: prod.splits)
qed

text \<open>C3, witness: the stored record of the example, read with 5 clicks.\<close>

theorem fallback_once_witness:
  "''uuuuuu'' \<noteq> ''favicon.ico''
   \<and> select_single False [ex_row, ex_other] ''uuuuuu'' = Inr ex_row
   \<and> fst (redirect_handler [ex_row, ex_other] ''uuuuuu'' False True False) =
       [Store (SelectByCode ''uuuuuu''),
        Respond (Redirect ''https://example.com/very/long/path''),
        Store (RpcIncrementClicks ''uuuuuu''), Store (UpdateClicks ''uuuuuu'' 6)]
   \<and> clicks_of (snd (redirect_handler [ex_row, ex_other] ''uuuuuu'' False True False))
        ''uuuuuu'' = [6]"
proof -
  have h1: "''uuuuuu'' \<noteq> ''favicon.ico''"
    by simp
  have h2: "select_single False [ex_row, ex_other] ''uuuuuu'' = Inr ex_row"
    by (simp add: select_single_def ex_row_def ex_other_def)
  have c: "clicks ex_row + 1 = 6" "original_url ex_row = ''https://example.com/very/long/path''"
    by (simp_all add: ex_row_def)
  note t = fallback_once [where f_upd = False and tbl' = "[]", OF h1 h2]
  show ?thesis
    using h1 h2 t [THEN conjunct1] t [THEN conjunct2, THEN conjunct2, THEN conjunct1]
    by (simp add: c)
qed

text \<open>
  C4. When the lookup has resolved a code to its record, the failure of the click increment
  and of its fallback is not observable: whatever the outcome of the two calls, the
  handler's only response is the redirect to the record's \<^verbatim>\<open>original_url\<close> (no error
  response, no second response), and when both calls fail the table is unchanged.
\<close>

theorem accounting_failure_unobservable:
  assumes "shortCode \<noteq> ''favicon.ico''"
    and "select_single f_sel tbl shortCode = Inr data"
  shows "responses (fst (redirect_handler tbl shortCode f_sel f_rpc f_upd))
           = [Redirect (original_url data)]
         \<and> snd (redirect_handler tbl shortCode f_sel True True) = tbl"
  using assms
  by (simp add: redirect_handler_def increment_clicks_def update_clicks_def responses_def
      split: prod.splits)

text \<open>C4, witness: the stored record of the example, with both accounting calls failing.\<close>

theorem accounting_failure_unobservable_witness:
  "''uuuuuu'' \<noteq> ''favicon.ico''
   \<and> select_single False [ex_row, ex_other] ''uuuuuu'' = Inr ex_row
   \<and> responses (fst (redirect_handler [ex_row, ex_other] ''uuuuuu'' False True True))
       = [Redirect ''https://example.com/very/long/path'']
   \<and> snd (redirect_handler [ex_row, ex_other] ''uuuuuu'' False True True)
       = [ex_row, ex_other]"
proof -
  have h1: "''uuuuuu'' \<noteq> ''favicon.ico''"
    by simp
  have h2: "select_single False [ex_row, ex_other] ''uuuuuu'' = Inr ex_row"
    by (simp add: select_single_def ex_row_def ex_other_def)
  have c: "original_url ex_row = ''https://example.com/very/long/path''"
    by (simp add: ex_row_def)
  show ?thesis
    using h1 h2 accounting_failure_unobservable
                  [where f_rpc = True and f_upd = True, OF h1 h2]
    by (simp add: c)
qed

text \<open>
  C5. For every code whose record exists (the table holds one row under it, and the
  lookup reaches the store), the redirect to the record's
  \<^verbatim>\<open>original_url\<close> is issued before any click accounting: the step that the lookup resumes
  issues the response, leaves the table as it was and leaves the increment pending; and in
  the handler run to its end, the response comes right after the lookup and every effect
  after it is an accounting call.
\<close>

theorem redirect_before_accounting:
  assumes "shortCode \<noteq> ''favicon.ico''"
    and "filter (\<lambda>r. short_code r = shortCode) tbl = [data]"
  shows "task_step False tbl (snd (spawn shortCode)) =
           ([Store (SelectByCode shortCode), Respond (Redirect (original_url data))], tbl,
            Increment shortCode (clicks data))
         \<and> (\<exists>post. fst (redirect_handler tbl shortCode False f_rpc f_upd) =
               [Store (SelectByCode shortCode), Respond (Redirect (original_url data))] @ post
               \<and> post \<noteq> [] \<and> list_all is_accounting post)"
  using assms
  by (simp add: redirect_handler_def spawn_def select_single_def increment_clicks_def
      split: prod.splits)

text \<open>C5, witness: the stored record of the example.\<close>

theorem redirect_before_accounting_witness:
  "''uuuuuu'' \<noteq> ''favicon.ico''
   \<and> filter (\<lambda>r. short_code r = ''uuuuuu'') [ex_row, ex_other] = [ex_row]
   \<and> task_step False [ex_row, ex_other] (snd (spawn ''uuuuuu'')) =
       ([Store (SelectByCode ''uuuuuu''), Respond (Redirect (original_url ex_row))],
        [ex_row, ex_other], Increment ''uuuuuu'' (clicks ex_row))
   \<and> (\<exists>post. fst (redirect_handler [ex_row, ex_other] ''uuuuuu'' False False False) =
         [Store (SelectByCode ''uuuuuu''), Respond (Redirect (original_url ex_row))] @ post
         \<and> post \<noteq> [] \<and> list_all is_accounting post)"
proof -
  have h1: "''uuuuuu'' \<noteq> ''favicon.ico''"
    by simp
  have h2: "filter (\<lambda>r. short_code r = ''uuuuuu'') [ex_row, ex_other] = [ex_row]"
    by (simp add: ex_row_def ex_other_def)
  show ?thesis
    using h1 h2 redirect_before_accounting
                  [where f_rpc = False and f_upd = False, OF h1 h2]
    by blast
qed

section \<open>The click counter\<close>

lemma not_decreased_refl: "not_decreased tbl tbl"
  by (simp add: not_decreased_def list_all2_conv_all_nth)

lemma not_decreased_trans:
  assumes "not_decreased a b" and "not_decreased b c"
  shows "not_decreased a c"
proof -
  have len: "length a \<le> length b" "length b \<le> length c"
    using assms by (simp_all add: not_decreased_def)
  have ab: "short_code (b ! i) = short_code (a ! i) \<and> clicks (a ! i) \<le> clicks (b ! i)"
    if "i < length a" for i
    using assms(1) that by (simp add: not_decreased_def list_all2_conv_all_nth)
  have bc: "short_code (c ! i) = short_code (b ! i) \<and> clicks (b ! i) \<le> clicks (c ! i)"
    if "i < length b" for i
    using assms(2) that by (simp add: not_decreased_def list_all2_conv_all_nth)
  have "short_code (c ! i) = short_code (a ! i) \<and> clicks (a ! i) \<le> clicks (c ! i)"
    if "i < length a" for i
    using ab [OF that] bc [of i] that len by simp
  then show ?thesis
    using len by (simp add: not_decreased_def list_all2_conv_all_nth)
qed

lemma not_decreased_append: "not_decreased tbl (tbl @ xs)"
  by (simp add: not_decreased_def list_all2_conv_all_nth)

lemma not_decreased_map:
  assumes "\<And>r. r \<in> set tbl \<Longrightarrow> short_code (g r) = short_code r \<and> clicks r \<le> clicks (g r)"
  shows "not_decreased tbl (map g tbl)"
  using assms by (simp add: not_decreased_def list_all2_conv_all_nth)

lemma increment_not_decreased: "not_decreased tbl (snd (increment_clicks f tbl code))"
  by (auto simp: increment_clicks_def not_decreased_refl intro!: not_decreased_map)

text \<open>An update keeps the counters when what it writes is not below what is stored.\<close>

lemma update_not_decreased:
  assumes "list_all (\<lambda>c. c \<le> n) (clicks_of tbl code)"
  shows "not_decreased tbl (snd (update_clicks f tbl code n))"
proof (cases f)
  case True
  then show ?thesis by (simp add: update_clicks_def not_decreased_refl)
next
  case False
  have "short_code (if short_code r = code then r\<lparr>clicks := n\<rparr> else r) = short_code r
      \<and> clicks r \<le> clicks (if short_code r = code then r\<lparr>clicks := n\<rparr> else r)"
    if "r \<in> set tbl" for r
    using assms that by (auto simp: clicks_of_def list_all_iff)
  then show ?thesis
    using False by (simp add: update_clicks_def not_decreased_map)
qed

lemma shorten_not_decreased:
  "not_decreased tbl (snd (shorten_handler e isUri pool now tbl req auth f))"
  by (auto simp: shorten_handler_def shorten_try_def insert_row_def Let_def
      not_decreased_refl not_decreased_append)

lemma stats_table: "snd (stats_handler e tbl code f) = tbl"
  by (simp add: stats_handler_def split: sum.splits)

lemma urls_table: "snd (urls_handler e tbl auth f) = tbl"
  by (simp add: urls_handler_def split: sum.splits option.splits)

lemma redirect_not_decreased:
  "not_decreased tbl (snd (redirect_handler tbl code f1 f2 f3))"
proof (cases "code = ''favicon.ico''")
  case True
  then show ?thesis by (simp add: redirect_handler_def not_decreased_refl)
next
  case nf: False
  show ?thesis
  proof (cases "select_single f1 tbl code")
    case (Inl err)
    then show ?thesis using nf by (simp add: redirect_handler_def not_decreased_refl)
  next
    case (Inr d)
    show ?thesis
    proof (cases f2)
      case True
      then have "snd (redirect_handler tbl code f1 f2 f3)
                 = snd (update_clicks f3 tbl code (clicks d + 1))"
        using nf Inr by (simp add: redirect_handler_def increment_clicks_def)
      moreover have "list_all (\<lambda>c. c \<le> clicks d + 1) (clicks_of tbl code)"
        using select_single_clicks_of [OF Inr] by simp
      ultimately show ?thesis using update_not_decreased by simp
    next
      case False
      then have "snd (redirect_handler tbl code f1 f2 f3) = snd (increment_clicks f2 tbl code)"
        using nf Inr by (simp add: redirect_handler_def increment_clicks_def)
      then show ?thesis using increment_not_decreased by simp
    qed
  qed
qed

lemma handle_not_decreased: "not_decreased tbl (snd (handle e isUri tbl req))"
  by (cases req)
     (simp_all add: shorten_not_decreased stats_table urls_table redirect_not_decreased
        not_decreased_refl)

lemma serve_not_decreased: "not_decreased tbl (serve e isUri tbl reqs)"
proof (induction reqs arbitrary: tbl)
  case Nil
  show ?case by (simp add: not_decreased_refl)
next
  case (Cons req reqs)
  show ?case
    using not_decreased_trans [OF handle_not_decreased Cons.IH] by simp
qed

lemma task_step_not_decreased:
  assumes "\<not> stale_fallback tbl t"
  shows "not_decreased tbl (fst (snd (task_step f tbl t)))"
proof (cases t)
  case (Lookup code)
  then show ?thesis by (simp add: not_decreased_refl split: sum.splits)
next
  case (Increment code known)
  have "fst (snd (task_step f tbl (Increment code known))) = snd (increment_clicks f tbl code)"
    by (simp add: increment_clicks_def)
  then show ?thesis using Increment increment_not_decreased by simp
next
  case (Fallback code known)
  have "fst (snd (task_step f tbl (Fallback code known)))
        = snd (update_clicks f tbl code (known + 1))"
    by (simp add: update_clicks_def)
  then show ?thesis using Fallback assms update_not_decreased by simp
next
  case Finished
  then show ?thesis by (simp add: not_decreased_refl)
qed

text \<open>A stale fallback that goes through lowers a counter.\<close>

lemma stale_fallback_decreases:
  assumes "i < length ts" and "stale_fallback tbl (ts ! i)"
  shows "\<not> not_decreased tbl (fst (sched_step (tbl, ts) (i, False)))"
proof
  assume nd: "not_decreased tbl (fst (sched_step (tbl, ts) (i, False)))"
  obtain code known where t: "ts ! i = Fallback code known"
    using assms(2) by (cases "ts ! i") simp_all
  let ?g = "\<lambda>r. if short_code r = code then r\<lparr>clicks := known + 1\<rparr> else r"
  have tbl': "fst (sched_step (tbl, ts) (i, False)) = map ?g tbl"
    using assms(1) t by (simp add: update_clicks_def)
  obtain r where r: "r \<in> set tbl" "short_code r = code" "known + 1 < clicks r"
    using assms(2) t by (auto simp: clicks_of_def list_all_iff not_le)
  then obtain j where j: "j < length tbl" "tbl ! j = r"
    by (auto simp: in_set_conv_nth)
  have "clicks (tbl ! j) \<le> clicks (map ?g tbl ! j)"
    using nd j(1) unfolding tbl' by (simp add: not_decreased_def list_all2_conv_all_nth)
  then show False
    using j r by simp
qed

text \<open>
  C2 (as amended). For every URL record, \<^verbatim>\<open>clicks\<close> never decreases over any sequence of
  requests (shorten, stats, listing, redirect with its click accounting) that are served one
  after the other, whatever store calls fail. With redirects in flight at the same time,
  every step of every one of them keeps every record's \<^verbatim>\<open>clicks\<close> at or above its value
  before the step, unless the step is a stale fallback: an update that writes the count read
  at resolution plus one over a larger stored count.
\<close>

theorem clicks_never_decrease_without_stale_fallback:
  "not_decreased tbl (serve e isUri tbl reqs)
   \<and> (i < length ts \<and> \<not> stale_fallback tbl (ts ! i) \<longrightarrow>
        not_decreased tbl (fst (sched_step (tbl, ts) (i, f))))"
proof (intro conjI impI)
  show "not_decreased tbl (serve e isUri tbl reqs)"
    by (rule serve_not_decreased)
next
  assume a: "i < length ts \<and> \<not> stale_fallback tbl (ts ! i)"
  obtain evs tbl' t' where st: "task_step f tbl (ts ! i) = (evs, tbl', t')"
    by (cases "task_step f tbl (ts ! i)")
  have "not_decreased tbl (fst (snd (task_step f tbl (ts ! i))))"
    using a by (simp add: task_step_not_decreased)
  then show "not_decreased tbl (fst (sched_step (tbl, ts) (i, f)))"
    using a st by simp
qed

text \<open>
  C2, witness: three requests served in a row on the example record (a redirect whose
  increment fails and whose fallback goes through, a shorten, a redirect), and a fallback
  in flight that read 5 clicks and meets a stored 5.
\<close>

theorem clicks_never_decrease_without_stale_fallback_witness:
  "0 < length [Fallback ''uuuuuu'' 5] \<and> \<not> stale_fallback [ex_row] ([Fallback ''uuuuuu'' 5] ! 0)
   \<and> not_decreased [ex_row]
       (serve ex_env ex_isUri [ex_row]
          [GetCode ''uuuuuu'' False True False,
           PostShorten ex_request ex_anonymous ex_pool 30 False,
           GetCode ''uuuuuu'' False False False])
   \<and> not_decreased [ex_row] (fst (sched_step ([ex_row], [Fallback ''uuuuuu'' 5]) (0, False)))"
proof -
  have h: "0 < length [Fallback ''uuuuuu'' 5]
           \<and> \<not> stale_fallback [ex_row] ([Fallback ''uuuuuu'' 5] ! 0)"
    by (simp add: clicks_of_def ex_row_def)
  note t = clicks_never_decrease_without_stale_fallback
             [where tbl = "[ex_row]" and ts = "[Fallback ''uuuuuu'' 5]" and i = 0 and f = False
                and e = ex_env and isUri = ex_isUri
                and reqs = "[GetCode ''uuuuuu'' False True False,
                             PostShorten ex_request ex_anonymous ex_pool 30 False,
                             GetCode ''uuuuuu'' False False False]"]
  show ?thesis
    using h t by blast
qed

text \<open>
  C2, counterexample: three redirects of the same code in flight. The first reads 5 clicks;
  the other two read and increment, so that the record stores 7; then the first one's
  increment fails and its fallback writes 6. The record's \<^verbatim>\<open>clicks\<close> goes from 7 to 6.
\<close>

theorem stale_fallback_lowers_clicks:
  "clicks_of (fst (run_schedule
      ([\<lparr>original_url = ''https://example.com/'', short_code = ''abc123'', user_id = None,
         clicks = 5, created_at = 0\<rparr>],
       [snd (spawn ''abc123''), snd (spawn ''abc123''), snd (spawn ''abc123'')])
      [(0, False), (1, False), (1, False), (2, False), (2, False), (0, True)])) ''abc123'' = [7]
   \<and> clicks_of (fst (run_schedule
      ([\<lparr>original_url = ''https://example.com/'', short_code = ''abc123'', user_id = None,
         clicks = 5, created_at = 0\<rparr>],
       [snd (spawn ''abc123''), snd (spawn ''abc123''), snd (spawn ''abc123'')])
      [(0, False), (1, False), (1, False), (2, False), (2, False), (0, True), (0, False)]))
        ''abc123'' = [6]"
  by (simp add: run_schedule_def spawn_def select_single_def increment_clicks_def
      update_clicks_def clicks_of_def)


end
